theory Spec2Isabelle
  imports Complex_Main
begin

section \<open>JavaScript numbers\<close>

text \<open>
  The rules engine \<^verbatim>\<open>FrenchRules\<close> computes with JavaScript numbers. A finite number is
  modelled by the rational it denotes (binary rounding of IEEE doubles is not modelled, and
  the two zeros are one); the three special values are kept, because the code reaches them:
  \<^verbatim>\<open>Number("abc")\<close> is \<^verbatim>\<open>NaN\<close> and the last overtime bracket ends at
  \<^verbatim>\<open>Infinity\<close>.
\<close>

datatype jsnum = NaN | NInf | Fin rat | PInf

fun jneg :: "jsnum \<Rightarrow> jsnum" where
  "jneg NaN = NaN"
| "jneg NInf = PInf"
| "jneg (Fin a) = Fin (- a)"
| "jneg PInf = NInf"

fun jadd :: "jsnum \<Rightarrow> jsnum \<Rightarrow> jsnum" where
  "jadd (Fin a) (Fin b) = Fin (a + b)"
| "jadd NaN _ = NaN"
| "jadd _ NaN = NaN"
| "jadd PInf NInf = NaN"
| "jadd NInf PInf = NaN"
| "jadd PInf _ = PInf"
| "jadd _ PInf = PInf"
| "jadd NInf _ = NInf"
| "jadd _ NInf = NInf"

definition jsub :: "jsnum \<Rightarrow> jsnum \<Rightarrow> jsnum" where
  "jsub a b = jadd a (jneg b)"

text \<open>The sign of a number other than \<^verbatim>\<open>NaN\<close>.\<close>

fun jsgn :: "jsnum \<Rightarrow> int" where
  "jsgn NaN = 0"
| "jsgn NInf = - 1"
| "jsgn (Fin a) = (if a < 0 then - 1 else if a = 0 then 0 else 1)"
| "jsgn PInf = 1"

definition of_sign :: "int \<Rightarrow> jsnum" where
  "of_sign s = (if s = 0 then NaN else if 0 < s then PInf else NInf)"

fun jmul :: "jsnum \<Rightarrow> jsnum \<Rightarrow> jsnum" where
  "jmul (Fin a) (Fin b) = Fin (a * b)"
| "jmul NaN _ = NaN"
| "jmul _ NaN = NaN"
| "jmul a b = of_sign (jsgn a * jsgn b)"

text \<open>Division; a zero divisor is the positive zero.\<close>

fun jdiv :: "jsnum \<Rightarrow> jsnum \<Rightarrow> jsnum" where
  "jdiv (Fin a) (Fin b) = (if b = 0 then of_sign (jsgn (Fin a)) else Fin (a / b))"
| "jdiv NaN _ = NaN"
| "jdiv _ NaN = NaN"
| "jdiv (Fin a) _ = Fin 0"
| "jdiv a (Fin b) = of_sign (jsgn a * (if b < 0 then - 1 else 1))"
| "jdiv _ _ = NaN"

text \<open>Comparisons: every comparison with \<^verbatim>\<open>NaN\<close> is false.\<close>

fun jlt :: "jsnum \<Rightarrow> jsnum \<Rightarrow> bool" where
  "jlt (Fin a) (Fin b) = (a < b)"
| "jlt NaN _ = False"
| "jlt _ NaN = False"
| "jlt NInf b = (b \<noteq> NInf)"
| "jlt a PInf = (a \<noteq> PInf)"
| "jlt _ _ = False"

definition jle :: "jsnum \<Rightarrow> jsnum \<Rightarrow> bool" where
  "jle a b = (a \<noteq> NaN \<and> b \<noteq> NaN \<and> (a = b \<or> jlt a b))"

definition jgt :: "jsnum \<Rightarrow> jsnum \<Rightarrow> bool" where
  "jgt a b = jlt b a"

definition jge :: "jsnum \<Rightarrow> jsnum \<Rightarrow> bool" where
  "jge a b = jle b a"

text \<open>\<^verbatim>\<open>Math.min\<close>, \<^verbatim>\<open>Math.max\<close> and \<^verbatim>\<open>Math.round\<close> (which rounds a half up).\<close>

definition Math_min :: "jsnum \<Rightarrow> jsnum \<Rightarrow> jsnum" where
  "Math_min a b = (if a = NaN \<or> b = NaN then NaN else if jle a b then a else b)"

definition Math_max :: "jsnum \<Rightarrow> jsnum \<Rightarrow> jsnum" where
  "Math_max a b = (if a = NaN \<or> b = NaN then NaN else if jle a b then b else a)"

fun Math_round :: "jsnum \<Rightarrow> jsnum" where
  "Math_round (Fin a) = Fin (of_int \<lfloor>a + 1 / 2\<rfloor>)"
| "Math_round x = x"

text \<open>\<^verbatim>\<open>!x\<close> on a number: zero and \<^verbatim>\<open>NaN\<close> are falsy.\<close>

definition falsy :: "jsnum \<Rightarrow> bool" where
  "falsy x = (x = NaN \<or> x = Fin 0)"

text \<open>The expression \<^verbatim>\<open>Math.round(x * 100) / 100\<close>, which the source writes out at each use.\<close>

definition round2 :: "jsnum \<Rightarrow> jsnum" where
  "round2 x = jdiv (Math_round (jmul x (Fin 100))) (Fin 100)"

text \<open>Whether a number is finite, and the rational it then is.\<close>

fun isFin :: "jsnum \<Rightarrow> bool" where
  "isFin (Fin _) = True"
| "isFin _ = False"


section \<open>Configuration\<close>

record cfg_bracket =
  bfrom :: jsnum
  bto :: jsnum
  brate :: jsnum
  blabel :: string

definition weeklyLegalHours :: jsnum where "weeklyLegalHours = Fin 35"
definition weeklyMaxHours :: jsnum where "weeklyMaxHours = Fin 48"
definition weeklyAvgMaxHours :: jsnum where "weeklyAvgMaxHours = Fin 44"
definition nightStart :: jsnum where "nightStart = Fin 21"
definition nightEnd :: jsnum where "nightEnd = Fin 6"

definition overtimeBrackets :: "cfg_bracket list" where
  "overtimeBrackets =
     [\<lparr>bfrom = Fin 35, bto = Fin 43, brate = Fin (125 / 100), blabel = ''Heures sup. 25%''\<rparr>,
      \<lparr>bfrom = Fin 43, bto = PInf, brate = Fin (150 / 100), blabel = ''Heures sup. 50%''\<rparr>]"

text \<open>The table \<^verbatim>\<open>CONFIG.contractBases\<close>: monthly hours per weekly contract base.\<close>

definition contractBases :: "(int \<times> jsnum) list" where
  "contractBases =
     [(24, Fin 104), (32, Fin (13867 / 100)), (35, Fin (15167 / 100)), (39, Fin 169)]"

section \<open>Weekly overtime\<close>

record bracket =
  label :: string
  hours :: jsnum
  rate :: jsnum
  multipliedHours :: jsnum

record OvertimeBreakdown =
  regularHours :: jsnum
  structuralHours :: jsnum
  brackets :: "bracket list"
  totalOvertime :: jsnum
  contractBase :: int

text \<open>
  The loop \<^verbatim>\<open>for (const bracket of ...)\<close> of \<^verbatim>\<open>calculateOvertime\<close>; the source has it
  twice, once per contract base, with the same body. It threads \<^verbatim>\<open>remainingOvertime\<close>
  and the list \<^verbatim>\<open>result.brackets\<close>, and leaves at \<^verbatim>\<open>break\<close>.
\<close>

fun fillBrackets :: "cfg_bracket list \<Rightarrow> jsnum \<Rightarrow> bracket list \<Rightarrow> bracket list" where
  "fillBrackets [] remainingOvertime acc = acc"
| "fillBrackets (b # bs) remainingOvertime acc =
     (let bracketWidth = jsub (bto b) (bfrom b);
          hoursInBracket = Math_min remainingOvertime bracketWidth;
          acc' = (if jgt hoursInBracket (Fin 0)
                  then acc @ [\<lparr>label = blabel b,
                               hours = round2 hoursInBracket,
                               rate = brate b,
                               multipliedHours = round2 (jmul hoursInBracket (brate b))\<rparr>]
                  else acc);
          remaining' = (if jgt hoursInBracket (Fin 0)
                        then jsub remainingOvertime hoursInBracket
                        else remainingOvertime)
      in if jle remaining' (Fin 0) then acc' else fillBrackets bs remaining' acc')"

definition overtimeBrackets39 :: "cfg_bracket list" where
  "overtimeBrackets39 =
     [\<lparr>bfrom = Fin 39, bto = Fin 43, brate = Fin (125 / 100),
       blabel = ''Heures sup. 25% (>39h)''\<rparr>,
      \<lparr>bfrom = Fin 43, bto = PInf, brate = Fin (150 / 100),
       blabel = ''Heures sup. 50% (>43h)''\<rparr>]"

definition calculateOvertime :: "jsnum \<Rightarrow> int \<Rightarrow> OvertimeBreakdown" where
  "calculateOvertime weeklyHours cb =
     (let threshold = (if cb = 39 then Fin 39 else weeklyLegalHours);
          result = \<lparr>regularHours = Fin 0, structuralHours = Fin 0, brackets = [],
                    totalOvertime = Fin 0, contractBase = cb\<rparr>
      in if cb = 39 then
           (let hoursUpTo35 = Math_min weeklyHours (Fin 35);
                structural = Math_min (Math_max (jsub weeklyHours (Fin 35)) (Fin 0)) (Fin 4);
                result = result\<lparr>regularHours := hoursUpTo35, structuralHours := structural\<rparr>
            in if jle weeklyHours threshold then result
               else (let remainingOvertime = jsub weeklyHours threshold
                     in result\<lparr>totalOvertime := remainingOvertime,
                               brackets := fillBrackets overtimeBrackets39 remainingOvertime []\<rparr>))
         else
           (if jle weeklyHours weeklyLegalHours then result\<lparr>regularHours := weeklyHours\<rparr>
            else (let remainingOvertime = jsub weeklyHours weeklyLegalHours
                  in result\<lparr>regularHours := weeklyLegalHours,
                            totalOvertime := remainingOvertime,
                            brackets := fillBrackets overtimeBrackets remainingOvertime []\<rparr>)))"

section \<open>Weekly warnings\<close>

record warning =
  wtype :: string
  message :: string

text \<open>
  The messages are French; a letter outside ASCII is written by its code point, which for
  these letters is below 256 and so is one character of the string, as in the source.
\<close>

definition getWeeklyWarnings :: "jsnum \<Rightarrow> warning list" where
  "getWeeklyWarnings weeklyHours =
     (if jgt weeklyHours weeklyMaxHours then
        [\<lparr>wtype = ''error'',
          message = ''D'' @ [CHR 0xE9] @ ''passement dur'' @ [CHR 0xE9]
                    @ ''e maximale hebdomadaire (48h)''\<rparr>]
      else if jgt weeklyHours weeklyAvgMaxHours then
        [\<lparr>wtype = ''warning'',
          message = ''Attention : 44h max en moyenne sur 12 semaines''\<rparr>]
      else [])"

section \<open>Hourly rate\<close>

text \<open>
  \<^verbatim>\<open>CONFIG.contractBases[key]\<close>: a key that is not in the table reads \<^verbatim>\<open>undefined\<close>,
  which is falsy and counts as \<^verbatim>\<open>NaN\<close> in arithmetic.
\<close>

definition contractBases_at :: "int \<Rightarrow> jsnum" where
  "contractBases_at key = (case map_of contractBases key of None \<Rightarrow> NaN | Some v \<Rightarrow> v)"

text \<open>\<^verbatim>\<open>CONFIG.contractBases[contractBase] || CONFIG.contractBases[35]\<close>.\<close>

definition monthlyHoursFor :: "int \<Rightarrow> jsnum" where
  "monthlyHoursFor cb =
     (if falsy (contractBases_at cb) then contractBases_at 35 else contractBases_at cb)"

definition calculateHourlyRate :: "jsnum \<Rightarrow> int \<Rightarrow> jsnum" where
  "calculateHourlyRate grossMonthlySalary cb =
     (if falsy grossMonthlySalary \<or> jle grossMonthlySalary (Fin 0) then Fin 0
      else jdiv (Math_round (jmul (jdiv grossMonthlySalary (monthlyHoursFor cb)) (Fin 10000)))
                (Fin 10000))"

section \<open>Strings read as numbers\<close>

text \<open>
  \<^verbatim>\<open>Number(s)\<close> on a string, after the grammar of ECMAScript (StringToNumber): white space
  is trimmed, the empty string is 0, then an optional sign before \<^verbatim>\<open>Infinity\<close> or a decimal
  literal with optional fraction and exponent, or an unsigned binary, octal or hexadecimal
  literal; anything else is \<^verbatim>\<open>NaN\<close>. A character is a code unit below 256.
\<close>

definition isWhiteSpace :: "char \<Rightarrow> bool" where
  "isWhiteSpace c =
     (c \<in> set [CHR 0x09, CHR 0x0A, CHR 0x0B, CHR 0x0C, CHR 0x0D, CHR 0x20, CHR 0xA0])"

definition trim :: "string \<Rightarrow> string" where
  "trim s = rev (dropWhile isWhiteSpace (rev (dropWhile isWhiteSpace s)))"

definition isDigit :: "char \<Rightarrow> bool" where
  "isDigit c = (c \<in> set ''0123456789'')"

text \<open>The value of a digit in a base up to 16, if it is one.\<close>

definition digitIn :: "nat \<Rightarrow> char \<Rightarrow> nat option" where
  "digitIn base c =
     (let n = (of_char c :: nat);
          v = (if 48 \<le> n \<and> n \<le> 57 then Some (n - 48)
               else if 97 \<le> n \<and> n \<le> 102 then Some (n - 87)
               else if 65 \<le> n \<and> n \<le> 70 then Some (n - 55)
               else None)
      in case v of None \<Rightarrow> None | Some d \<Rightarrow> (if d < base then Some d else None))"

fun digitsIn :: "nat \<Rightarrow> string \<Rightarrow> nat \<Rightarrow> nat option" where
  "digitsIn base [] acc = Some acc"
| "digitsIn base (c # cs) acc =
     (case digitIn base c of None \<Rightarrow> None | Some d \<Rightarrow> digitsIn base cs (base * acc + d))"

text \<open>A non-empty run of digits of the base, and nothing else.\<close>

definition numeral_in :: "nat \<Rightarrow> string \<Rightarrow> jsnum" where
  "numeral_in base s =
     (if s = [] then NaN
      else case digitsIn base s 0 of None \<Rightarrow> NaN | Some n \<Rightarrow> Fin (of_nat n))"

text \<open>The exponent part: empty, or \<^verbatim>\<open>e\<close> or \<^verbatim>\<open>E\<close>, an optional sign and digits.\<close>

definition exponentPart :: "string \<Rightarrow> int option" where
  "exponentPart s =
     (case s of
        [] \<Rightarrow> Some 0
      | c # t \<Rightarrow>
          (if c = CHR ''e'' \<or> c = CHR ''E'' then
             (case t of
                [] \<Rightarrow> None
              | sg # ds \<Rightarrow>
                  (if sg = CHR ''+'' then
                     (if ds = [] then None else map_option int (digitsIn 10 ds 0))
                   else if sg = CHR ''-'' then
                     (if ds = [] then None
                      else map_option (\<lambda>n. - int n) (digitsIn 10 ds 0))
                   else map_option int (digitsIn 10 t 0)))
           else None))"

definition scale10 :: "rat \<Rightarrow> int \<Rightarrow> rat" where
  "scale10 m e = (if 0 \<le> e then m * 10 ^ nat e else m / 10 ^ nat (- e))"

definition unsignedDecimal :: "string \<Rightarrow> jsnum" where
  "unsignedDecimal s =
     (if s = ''Infinity'' then PInf
      else
        (let ip = takeWhile isDigit s;
             r1 = dropWhile isDigit s;
             hasDot = (r1 \<noteq> [] \<and> hd r1 = CHR ''.'');
             fp = (if hasDot then takeWhile isDigit (tl r1) else []);
             r2 = (if hasDot then dropWhile isDigit (tl r1) else r1)
         in if ip = [] \<and> fp = [] then NaN
            else case (digitsIn 10 ip 0, digitsIn 10 fp 0, exponentPart r2) of
                   (Some i, Some f, Some e) \<Rightarrow>
                     Fin (scale10 (of_nat i + of_nat f / 10 ^ length fp) e)
                 | _ \<Rightarrow> NaN))"

definition Number_of_string :: "string \<Rightarrow> jsnum" where
  "Number_of_string str =
     (let s = trim str
      in if s = [] then Fin 0
         else if take 2 s = ''0x'' \<or> take 2 s = ''0X'' then numeral_in 16 (drop 2 s)
         else if take 2 s = ''0o'' \<or> take 2 s = ''0O'' then numeral_in 8 (drop 2 s)
         else if take 2 s = ''0b'' \<or> take 2 s = ''0B'' then numeral_in 2 (drop 2 s)
         else if hd s = CHR ''+'' then unsignedDecimal (tl s)
         else if hd s = CHR ''-'' then jneg (unsignedDecimal (tl s))
         else unsignedDecimal s)"

text \<open>\<^verbatim>\<open>s.split(':')\<close>: the pieces between the colons; there is always at least one.\<close>

fun split_colon :: "string \<Rightarrow> string list" where
  "split_colon [] = [ [] ]"
| "split_colon (c # cs) =
     (if c = CHR '':'' then [] # split_colon cs
      else (case split_colon cs of [] \<Rightarrow> [ [c] ] | p # ps \<Rightarrow> (c # p) # ps))"

section \<open>Time arithmetic\<close>

text \<open>
  \<^verbatim>\<open>const [h, m] = timeStr.split(':').map(Number)\<close>: \<open>h\<close> is the first piece as a number;
  \<open>m\<close> is the second, or \<^verbatim>\<open>undefined\<close> when there is no colon, and a sum with
  \<^verbatim>\<open>undefined\<close> is \<^verbatim>\<open>NaN\<close>.
\<close>

definition timeToMinutes :: "string \<Rightarrow> jsnum" where
  "timeToMinutes timeStr =
     (if timeStr = [] then Fin 0
      else (case map Number_of_string (split_colon timeStr) of
              h # m # _ \<Rightarrow> jadd (jmul h (Fin 60)) m
            | _ \<Rightarrow> NaN))"

definition minutesToHours :: "jsnum \<Rightarrow> jsnum" where
  "minutesToHours minutes = jdiv (Math_round (jmul (jdiv minutes (Fin 60)) (Fin 100))) (Fin 100)"

section \<open>Calendar dates\<close>

text \<open>
  A \<^verbatim>\<open>Date\<close> is used by the engine only through its calendar day in local time (year,
  month from 0, day of the month), its day of the week, and sums of whole days; an invalid
  date is kept apart. Days are counted from 1 January 1970 in the proleptic Gregorian
  calendar. The model takes a local day to last 24 hours or more (no clock set back
  between Easter and Whit Monday, as in France), and leaves out the limit of
  \<open>10\<^sup>8\<close> days on either side of 1970.
\<close>

datatype jsdate = Invalid_Date | LocalDate int int int

definition days_from_civil :: "int \<Rightarrow> int \<Rightarrow> int \<Rightarrow> int" where
  "days_from_civil y m d =
     (let y' = (if m \<le> 2 then y - 1 else y);
          era = y' div 400;
          yoe = y' mod 400;
          doy = (153 * (if 2 < m then m - 3 else m + 9) + 2) div 5 + d - 1;
          doe = yoe * 365 + yoe div 4 - yoe div 100 + doy
      in era * 146097 + doe - 719468)"

definition civil_from_days :: "int \<Rightarrow> jsdate" where
  "civil_from_days z =
     (let z' = z + 719468;
          era = z' div 146097;
          doe = z' mod 146097;
          yoe = (doe - doe div 1460 + doe div 36524 - doe div 146096) div 365;
          doy = doe - (365 * yoe + yoe div 4 - yoe div 100);
          mp = (5 * doy + 2) div 153;
          d = doy - (153 * mp + 2) div 5 + 1;
          m = (if mp < 10 then mp + 3 else mp - 9);
          y = yoe + era * 400 + (if m \<le> 2 then 1 else 0)
      in LocalDate y (m - 1) d)"

text \<open>
  The day number of \<^verbatim>\<open>new Date(year, month, day)\<close> and of \<^verbatim>\<open>Date.UTC(year, month, day)\<close>:
  a year from 0 to 99 means 1900 + year, and month and day may overflow.
\<close>

definition makeDay :: "int \<Rightarrow> int \<Rightarrow> int \<Rightarrow> int" where
  "makeDay year month day =
     (let y = (if 0 \<le> year \<and> year \<le> 99 then 1900 + year else year)
      in days_from_civil (y + month div 12) (month mod 12 + 1) 1 + day - 1)"

definition newDate :: "int \<Rightarrow> int \<Rightarrow> int \<Rightarrow> jsdate" where
  "newDate year month day = civil_from_days (makeDay year month day)"

text \<open>\<^verbatim>\<open>new Date(date.getTime() + n * 86400000)\<close>.\<close>

definition addDays :: "jsdate \<Rightarrow> int \<Rightarrow> jsdate" where
  "addDays date n =
     (case date of
        Invalid_Date \<Rightarrow> Invalid_Date
      | LocalDate y m d \<Rightarrow> civil_from_days (days_from_civil y (m + 1) d + n))"


text \<open>The remainder \<^verbatim>\<open>a % b\<close> of JavaScript has the sign of \<open>a\<close>.\<close>

definition js_rem :: "int \<Rightarrow> int \<Rightarrow> int" where
  "js_rem a b = sgn a * (\<bar>a\<bar> mod \<bar>b\<bar>)"

definition getEasterDate :: "int \<Rightarrow> jsdate" where
  "getEasterDate year =
     (let a = js_rem year 19;
          b = year div 100;
          c = js_rem year 100;
          d = b div 4;
          e = js_rem b 4;
          f = (b + 8) div 25;
          g = (b - f + 1) div 3;
          h = js_rem (19 * a + b - d - g + 15) 30;
          i = c div 4;
          k = js_rem c 4;
          l = js_rem (32 + 2 * e + 2 * i - h - k) 7;
          m = (a + 11 * h + 22 * l) div 451;
          month = (h + l - 7 * m + 114) div 31;
          day = js_rem (h + l - 7 * m + 114) 31 + 1
      in newDate year (month - 1) day)"

record holiday =
  hdate :: jsdate
  name :: string

definition getPublicHolidays :: "int \<Rightarrow> holiday list" where
  "getPublicHolidays year =
     (let easter = getEasterDate year
      in [\<lparr>hdate = newDate year 0 1, name = ''Jour de l'' @ [CHR 0x27] @ ''An''\<rparr>,
          \<lparr>hdate = addDays easter 1, name = ''Lundi de P'' @ [CHR 0xE2] @ ''ques''\<rparr>,
          \<lparr>hdate = newDate year 4 1, name = ''F'' @ [CHR 0xEA] @ ''te du Travail''\<rparr>,
          \<lparr>hdate = newDate year 4 8, name = ''Victoire 1945''\<rparr>,
          \<lparr>hdate = addDays easter 39, name = ''Ascension''\<rparr>,
          \<lparr>hdate = addDays easter 50, name = ''Lundi de Pentec'' @ [CHR 0xF4] @ ''te''\<rparr>,
          \<lparr>hdate = newDate year 6 14, name = ''F'' @ [CHR 0xEA] @ ''te Nationale''\<rparr>,
          \<lparr>hdate = newDate year 7 15, name = ''Assomption''\<rparr>,
          \<lparr>hdate = newDate year 10 1, name = ''Toussaint''\<rparr>,
          \<lparr>hdate = newDate year 10 11, name = ''Armistice 1918''\<rparr>,
          \<lparr>hdate = newDate year 11 25, name = ''No'' @ [CHR 0xEB] @ ''l''\<rparr>])"

text \<open>
  \<^verbatim>\<open>holidays.find(...)\<close>: the first holiday on the same calendar day. The getters of an
  invalid date give \<^verbatim>\<open>NaN\<close>, which is equal to nothing, so no holiday is found.
\<close>

definition isPublicHoliday :: "jsdate \<Rightarrow> holiday option" where
  "isPublicHoliday date =
     (case date of
        Invalid_Date \<Rightarrow> None
      | LocalDate year m d \<Rightarrow> find (\<lambda>h. hdate h = LocalDate year m d) (getPublicHolidays year))"


section \<open>Daily hours\<close>

text \<open>
  One day of the schedule. \<open>date\<close> is the value of \<^verbatim>\<open>new Date(entry.date)\<close>; an empty
  \<open>start\<close> or \<open>end'\<close> is a time that was not entered; \<open>breakDuration\<close> is a whole number
  of minutes.
\<close>

record entry =
  date :: jsdate
  start :: string
  end' :: string
  breakDuration :: int





definition calculateNightHours :: "entry \<Rightarrow> jsnum" where
  "calculateNightHours e =
     (if start e = [] \<or> end' e = [] then Fin 0
      else
        (let startMin = timeToMinutes (start e);
             endMin = timeToMinutes (end' e);
             endMin = (if jle endMin startMin then jadd endMin (Fin 1440) else endMin);
             nightStartMin = jmul nightStart (Fin 60);
             nightEndMin = jmul nightEnd (Fin 60);
             nightMinutes = Fin 0;
             nightP1Start = nightStartMin;
             nightP1End = Fin 1440;
             nightP2Start = Fin 0;
             nightP2End = nightEndMin;
             overlap1Start = Math_max startMin nightP1Start;
             overlap1End = Math_min endMin nightP1End;
             nightMinutes = (if jgt overlap1End overlap1Start
                             then jadd nightMinutes (jsub overlap1End overlap1Start)
                             else nightMinutes);
             overlap2Start = Math_max startMin nightP2Start;
             overlap2End = Math_min endMin nightP2End;
             nightMinutes = (if jgt overlap2End overlap2Start
                             then jadd nightMinutes (jsub overlap2End overlap2Start)
                             else nightMinutes);
             nightMinutes = (if jgt endMin (Fin 1440)
                             then (let nextDayEnd = Math_min (jsub endMin (Fin 1440))
                                                             (jmul nightEndMin (Fin 60))
                                   in jadd nightMinutes (Math_max (Fin 0) nextDayEnd))
                             else nightMinutes)
         in minutesToHours nightMinutes))"


section \<open>Weekly pay\<close>







section \<open>ISO weeks\<close>






section \<open>Processing a period\<close>


























text \<open>A time of day as the entry form writes it: two digits, a colon, two digits.\<close>

definition isHHMM :: "string \<Rightarrow> bool" where
  "isHHMM s =
     (case s of
        [a, b, c, d, e] \<Rightarrow>
          isDigit a \<and> isDigit b \<and> c = CHR '':'' \<and> isDigit d \<and> isDigit e
      | _ \<Rightarrow> False)"

section \<open>Arithmetic of finite numbers\<close>

lemma floor_rat_numeral: "\<lfloor>numeral a / numeral b :: rat\<rfloor> = numeral a div numeral b"
  by (metis floor_divide_of_int_eq of_int_numeral)

lemma round2_Fin: "round2 (Fin x) = Fin (of_int \<lfloor>x * 100 + 1 / 2\<rfloor> / 100)"
  by (simp add: round2_def)

lemma jle_Fin: "jle (Fin a) (Fin b) = (a \<le> b)"
  by (auto simp: jle_def)

lemma jgt_Fin: "jgt (Fin a) (Fin b) = (b < a)"
  by (simp add: jgt_def)

lemma jge_Fin: "jge (Fin a) (Fin b) = (b \<le> a)"
  by (simp add: jge_def jle_Fin)

lemma jsub_Fin: "jsub (Fin a) (Fin b) = Fin (a - b)"
  by (simp add: jsub_def)

lemma jsub_PInf_Fin: "jsub PInf (Fin a) = PInf"
  by (simp add: jsub_def)

lemma Math_min_Fin: "Math_min (Fin a) (Fin b) = Fin (min a b)"
  by (auto simp: Math_min_def jle_Fin)

lemma Math_max_Fin: "Math_max (Fin a) (Fin b) = Fin (max a b)"
  by (auto simp: Math_max_def jle_Fin)

lemma Math_min_PInf: "Math_min (Fin a) PInf = Fin a"
  by (simp add: Math_min_def jle_def)

lemmas fin_simps =
  jle_Fin jgt_Fin jge_Fin jsub_Fin jsub_PInf_Fin Math_min_Fin Math_max_Fin Math_min_PInf

section \<open>Overtime classification\<close>

text \<open>The bracket loop on a positive finite amount of overtime, for each of the two tables.\<close>

lemma fillBrackets_35:
  "0 < r \<Longrightarrow> fillBrackets overtimeBrackets (Fin r) [] =
     \<lparr>label = ''Heures sup. 25%'', hours = round2 (Fin (min r 8)), rate = Fin (125 / 100),
       multipliedHours = round2 (Fin (min r 8 * (125 / 100)))\<rparr> #
     (if r \<le> 8 then []
      else [\<lparr>label = ''Heures sup. 50%'', hours = round2 (Fin (r - 8)),
              rate = Fin (150 / 100),
              multipliedHours = round2 (Fin ((r - 8) * (150 / 100)))\<rparr>])"
  by (auto simp: overtimeBrackets_def Let_def fin_simps min_def)

lemma fillBrackets_39:
  "0 < r \<Longrightarrow> fillBrackets overtimeBrackets39 (Fin r) [] =
     \<lparr>label = ''Heures sup. 25% (>39h)'', hours = round2 (Fin (min r 4)),
       rate = Fin (125 / 100),
       multipliedHours = round2 (Fin (min r 4 * (125 / 100)))\<rparr> #
     (if r \<le> 4 then []
      else [\<lparr>label = ''Heures sup. 50% (>43h)'', hours = round2 (Fin (r - 4)),
              rate = Fin (150 / 100),
              multipliedHours = round2 (Fin ((r - 4) * (150 / 100)))\<rparr>])"
  by (auto simp: overtimeBrackets39_def Let_def fin_simps min_def)

text \<open>
  C5. With a contract base other than 39, \<^verbatim>\<open>calculateOvertime\<close> counts the hours up to 35
  as regular (\<open>min w 35\<close>) and none as structural; the hours above 35 are overtime and fill
  the bracket at rate 1.25 with \<open>min (w - 35) 8\<close> hours, then the bracket at rate 1.50 with
  what remains. The recorded hours of a bracket are that amount rounded to two decimals.
  For 45 hours: 35 regular, then 8 hours at 1.25 and 2 hours at 1.50.
\<close>

theorem calculateOvertime_base35:
  "cb \<noteq> 39 \<Longrightarrow>
   regularHours (calculateOvertime (Fin w) cb) = Fin (min w 35) \<and>
   structuralHours (calculateOvertime (Fin w) cb) = Fin 0 \<and>
   totalOvertime (calculateOvertime (Fin w) cb) = Fin (max (w - 35) 0) \<and>
   brackets (calculateOvertime (Fin w) cb) =
     (if w \<le> 35 then []
      else \<lparr>label = ''Heures sup. 25%'', hours = round2 (Fin (min (w - 35) 8)),
             rate = Fin (125 / 100),
             multipliedHours = round2 (Fin (min (w - 35) 8 * (125 / 100)))\<rparr> #
           (if w \<le> 43 then []
            else [\<lparr>label = ''Heures sup. 50%'', hours = round2 (Fin (w - 43)),
                    rate = Fin (150 / 100),
                    multipliedHours = round2 (Fin ((w - 43) * (150 / 100)))\<rparr>])) \<and>
   calculateOvertime (Fin 45) 35 =
     \<lparr>regularHours = Fin 35, structuralHours = Fin 0,
      brackets = [\<lparr>label = ''Heures sup. 25%'', hours = Fin 8, rate = Fin (125 / 100),
                   multipliedHours = Fin 10\<rparr>,
                  \<lparr>label = ''Heures sup. 50%'', hours = Fin 2, rate = Fin (150 / 100),
                   multipliedHours = Fin 3\<rparr>],
      totalOvertime = Fin 10, contractBase = 35\<rparr>"
  by (simp add: calculateOvertime_def Let_def weeklyLegalHours_def fin_simps fillBrackets_35
      round2_Fin floor_rat_numeral)

theorem calculateOvertime_base35_witness:
  "(24 :: int) \<noteq> 39 \<and>
   regularHours (calculateOvertime (Fin 40) 24) = Fin 35 \<and>
   map hours (brackets (calculateOvertime (Fin 40) 24)) = [Fin 5]"
  using calculateOvertime_base35 [of 24 40]
  by (simp add: round2_Fin floor_rat_numeral)

text \<open>
  C6. With contract base 39, \<^verbatim>\<open>calculateOvertime\<close> counts \<open>min w 35\<close> hours as regular
  and \<open>min (max (w - 35) 0) 4\<close> hours as structural; only the hours above 39 are overtime,
  filling the bracket at rate 1.25 with \<open>min (w - 39) 4\<close> hours and then the bracket at rate
  1.50. For 41 hours: 4 structural, 35 regular, and one bracket of 2 hours at 1.25.
\<close>

theorem calculateOvertime_base39:
  "regularHours (calculateOvertime (Fin w) 39) = Fin (min w 35) \<and>
   structuralHours (calculateOvertime (Fin w) 39) = Fin (min (max (w - 35) 0) 4) \<and>
   totalOvertime (calculateOvertime (Fin w) 39) = Fin (max (w - 39) 0) \<and>
   brackets (calculateOvertime (Fin w) 39) =
     (if w \<le> 39 then []
      else \<lparr>label = ''Heures sup. 25% (>39h)'', hours = round2 (Fin (min (w - 39) 4)),
             rate = Fin (125 / 100),
             multipliedHours = round2 (Fin (min (w - 39) 4 * (125 / 100)))\<rparr> #
           (if w \<le> 43 then []
            else [\<lparr>label = ''Heures sup. 50% (>43h)'', hours = round2 (Fin (w - 43)),
                    rate = Fin (150 / 100),
                    multipliedHours = round2 (Fin ((w - 43) * (150 / 100)))\<rparr>])) \<and>
   calculateOvertime (Fin 41) 39 =
     \<lparr>regularHours = Fin 35, structuralHours = Fin 4,
      brackets = [\<lparr>label = ''Heures sup. 25% (>39h)'', hours = Fin 2,
                   rate = Fin (125 / 100), multipliedHours = Fin (5 / 2)\<rparr>],
      totalOvertime = Fin 2, contractBase = 39\<rparr>"
  by (simp add: calculateOvertime_def Let_def weeklyLegalHours_def fin_simps fillBrackets_39
      round2_Fin floor_rat_numeral)

theorem calculateOvertime_base39_witness:
  "structuralHours (calculateOvertime (Fin 37) 39) = Fin 2 \<and>
   map hours (brackets (calculateOvertime (Fin 45) 39)) = [Fin 4, Fin 2]"
  using calculateOvertime_base39 [of 37] calculateOvertime_base39 [of 45]
  by (simp add: round2_Fin floor_rat_numeral)



section \<open>Weekly warnings and hourly rate\<close>

text \<open>
  C9. \<^verbatim>\<open>getWeeklyWarnings\<close> emits at most one warning: above 48 hours only the warning of
  type error for the weekly maximum, above 44 and up to 48 hours only the advisory on the
  44-hour average, and none up to 44 hours.
\<close>

theorem getWeeklyWarnings_at_most_one:
  "length (getWeeklyWarnings x) \<le> 1 \<and>
   (48 < w \<longrightarrow> getWeeklyWarnings (Fin w) =
      [\<lparr>wtype = ''error'',
        message = ''D'' @ [CHR 0xE9] @ ''passement dur'' @ [CHR 0xE9]
                  @ ''e maximale hebdomadaire (48h)''\<rparr>]) \<and>
   (44 < w \<and> w \<le> 48 \<longrightarrow> getWeeklyWarnings (Fin w) =
      [\<lparr>wtype = ''warning'',
        message = ''Attention : 44h max en moyenne sur 12 semaines''\<rparr>]) \<and>
   (w \<le> 44 \<longrightarrow> getWeeklyWarnings (Fin w) = [])"
  by (simp add: getWeeklyWarnings_def weeklyMaxHours_def weeklyAvgMaxHours_def fin_simps)

theorem getWeeklyWarnings_at_most_one_witness:
  "(48 :: rat) < 50 \<and> map wtype (getWeeklyWarnings (Fin 50)) = [''error''] \<and>
   (44 :: rat) < 46 \<and> (46 :: rat) \<le> 48 \<and>
   map wtype (getWeeklyWarnings (Fin 46)) = [''warning''] \<and>
   (40 :: rat) \<le> 44 \<and> getWeeklyWarnings (Fin 40) = []"
  using getWeeklyWarnings_at_most_one [of NaN 50] getWeeklyWarnings_at_most_one [of NaN 46]
    getWeeklyWarnings_at_most_one [of NaN 40]
  by simp

text \<open>
  C10. For a positive salary and a contract base that is not a key of the table (24, 32,
  35, 39), \<^verbatim>\<open>calculateHourlyRate\<close> divides by the monthly hours of the 35-hour base,
  151.67, and rounds the quotient to four decimals.
\<close>

theorem calculateHourlyRate_fallback:
  "0 < s \<Longrightarrow> cb \<notin> {24, 32, 35, 39} \<Longrightarrow>
   calculateHourlyRate (Fin s) cb =
     Fin (of_int \<lfloor>s / (15167 / 100) * 10000 + 1 / 2\<rfloor> / 10000)"
  by (simp add: calculateHourlyRate_def monthlyHoursFor_def contractBases_at_def
      contractBases_def falsy_def fin_simps)

theorem calculateHourlyRate_fallback_witness:
  "(0 :: rat) < 2000 \<and> (40 :: int) \<notin> {24, 32, 35, 39} \<and>
   calculateHourlyRate (Fin 2000) 40 = Fin (131865 / 10000)"
  using calculateHourlyRate_fallback [of 2000 40]
  by (simp add: floor_rat_numeral)

section \<open>Daily and night hours\<close>


lemma minutesToHours_Fin:
  "minutesToHours (Fin x) = Fin (of_int \<lfloor>x / 60 * 100 + 1 / 2\<rfloor> / 100)"
  by (simp add: minutesToHours_def)



lemma timeToMinutes_2200: "timeToMinutes ''22:00'' = Fin 1320"
  by code_simp


lemma timeToMinutes_0800: "timeToMinutes ''08:00'' = Fin 480"
  by code_simp



text \<open>
  C1. A shift from 22:00 to 08:00 crosses midnight. The night window gives it 2 hours of
  the evening and 6 hours of the next morning, up to 06:00; \<^verbatim>\<open>calculateNightHours\<close>
  returns 10, the two hours after 06:00 included, because the bound it takes for the next
  day is \<^verbatim>\<open>nightEndMin * 60\<close>, 21600 minutes.
\<close>

theorem calculateNightHours_after_six:
  "calculateNightHours
     \<lparr>date = LocalDate 2024 4 6, start = ''22:00'', end' = ''08:00'', breakDuration = 0\<rparr>
     = Fin 10"
  by (simp add: calculateNightHours_def timeToMinutes_2200 timeToMinutes_0800 fin_simps
      nightStart_def nightEnd_def minutesToHours_Fin floor_rat_numeral Let_def)

section \<open>Weekly pay\<close>











section \<open>Holiday calendar\<close>

text \<open>
  C2, as the code has it. Easter 2024 is 31 March 2024, and the holiday found on
  8 May 2024 carries the French name of the source, ``Victoire 1945''.
\<close>

theorem holidays_2024:
  "getEasterDate 2024 = LocalDate 2024 2 31 \<and>
   map_option name (isPublicHoliday (LocalDate 2024 4 8)) = Some ''Victoire 1945''"
  by code_simp

text \<open>
  C2, as the specification has it, fails on both counts: \<^verbatim>\<open>getEasterDate(2024)\<close> is not
  21 April 2024 (month 3 counted from 0), and the name is not ``Victory 1945''.
\<close>

theorem holidays_2024_not_as_specified:
  "getEasterDate 2024 \<noteq> LocalDate 2024 3 21 \<and>
   map_option name (isPublicHoliday (LocalDate 2024 4 8)) \<noteq> Some ''Victory 1945''"
  by code_simp

section \<open>Processing a period\<close>

subsection \<open>Finite numbers stay finite\<close>

lemma isFin_jadd: "isFin a \<Longrightarrow> isFin b \<Longrightarrow> isFin (jadd a b)"
  by (cases a; cases b) simp_all

lemma isFin_jmul: "isFin a \<Longrightarrow> isFin b \<Longrightarrow> isFin (jmul a b)"
  by (cases a; cases b) simp_all





subsection \<open>Well-formed times are read as finite numbers\<close>

lemma isDigit_facts:
  assumes "isDigit c"
  shows "\<not> isWhiteSpace c" and "c \<noteq> CHR ''x''" and "c \<noteq> CHR ''X''" and "c \<noteq> CHR ''o''"
    and "c \<noteq> CHR ''O''" and "c \<noteq> CHR ''b''" and "c \<noteq> CHR ''B''" and "c \<noteq> CHR ''+''"
    and "c \<noteq> CHR ''-''" and "c \<noteq> CHR '':''" and "c \<noteq> CHR ''n''"
    and "\<exists>d. digitIn 10 c = Some d"
  using assms by (auto simp: isDigit_def isWhiteSpace_def digitIn_def)

lemma Number_two_digits:
  assumes "isDigit a" and "isDigit b"
  shows "isFin (Number_of_string [a, b])"
proof -
  obtain x y where "digitIn 10 a = Some x" "digitIn 10 b = Some y"
    using assms isDigit_facts(12) by blast
  then show ?thesis
    using assms isDigit_facts(1-11) [OF assms(1)] isDigit_facts(1-11) [OF assms(2)]
    by (simp add: Number_of_string_def trim_def unsignedDecimal_def Let_def exponentPart_def
        scale10_def)
qed

lemma split_colon_HHMM:
  "isDigit a \<Longrightarrow> isDigit b \<Longrightarrow> isDigit d \<Longrightarrow> isDigit e \<Longrightarrow>
   split_colon [a, b, CHR '':'', d, e] = [ [a, b], [d, e] ]"
  by (simp add: isDigit_facts(10))

lemma timeToMinutes_HHMM:
  assumes "isHHMM s"
  shows "isFin (timeToMinutes s)"
proof -
  from assms obtain a b d e where s: "s = [a, b, CHR '':'', d, e]"
    and dg: "isDigit a" "isDigit b" "isDigit d" "isDigit e"
    by (auto simp: isHHMM_def split: list.splits)
  have "timeToMinutes s =
          jadd (jmul (Number_of_string [a, b]) (Fin 60)) (Number_of_string [d, e])"
    unfolding s timeToMinutes_def split_colon_HHMM [OF dg] by simp
  then show ?thesis
    using Number_two_digits [OF dg(1,2)] Number_two_digits [OF dg(3,4)]
    by (simp add: isFin_jmul isFin_jadd)
qed

subsection \<open>The maps keyed by week\<close>








subsection \<open>The loop over the days\<close>








subsection \<open>The loops over the weeks\<close>







subsection \<open>The result\<close>




end
